theory Spec2Isabelle
  imports Main "HOL-Library.Word" "HOL-Library.List_Lexorder"
begin

section \<open>Data model\<close>

text \<open>
  Go's \<open>[]byte\<close> is a list of 8-bit words; the nil slice and the empty slice are both
  \<open>[]\<close> (\<open>bytes.Equal\<close> and \<open>bytes.Compare\<close> do not tell them apart). \<open>uint64\<close> is a
  64-bit word, so \<open>+\<close> and \<open>*\<close> wrap as in Go. \<open>bytes.Compare\<close> is the lexicographic
  order on byte lists, which is the order \<open>HOL-Library.List_Lexorder\<close> puts on lists.
\<close>

type_synonym byte = "8 word"
type_synonym bytes = "byte list"
type_synonym u64 = "64 word"

text \<open>\<open>ethpb.BeaconBlock\<close>, with the fields the fork choice and the store read.\<close>

record BeaconBlock =
  Slot :: u64
  ParentRoot :: bytes
  StateRoot :: bytes
  Signature :: bytes

text \<open>\<open>&ethpb.BeaconBlock{}\<close>: every field at its zero value.\<close>

definition emptyBlock :: BeaconBlock where
  "emptyBlock = \<lparr>Slot = 0, ParentRoot = [], StateRoot = [], Signature = []\<rparr>"

record Checkpoint =
  Epoch :: u64
  Root :: bytes

record Validator =
  EffectiveBalance :: u64
  ActivationEpoch :: u64
  ExitEpoch :: u64

record BeaconState =
  GenesisTime :: u64
  StateSlot :: u64
  Validators :: "Validator list"
  CurrentJustifiedCheckpoint :: Checkpoint
  FinalizedCheckpoint :: Checkpoint

text \<open>The latest vote of a validator, as \<open>ValidatorLatestVote\<close> returns it.\<close>

record LatestMessage =
  VoteEpoch :: u64
  VoteRoot :: bytes

text \<open>
  Errors are values. \<open>errors.Wrap\<close> and \<open>errors.Wrapf\<close> of \<open>github.com/pkg/errors\<close>
  return nil when the wrapped error is nil; \<open>Wrap\<close> below keeps that.
\<close>

datatype error =
    CorruptEncoding
  | IoFailure
  | SigningRootFailed
  | HashProtoFailed
  | MissingPreState
  | FutureSlot
  | NotDescendantOfFinalized
  | BeforeFinalized
  | StateTransitionFailed
  | NilDereference
  | Wrapped string error

definition Wrap :: "error option \<Rightarrow> string \<Rightarrow> error option" where
  "Wrap err msg = (case err of None \<Rightarrow> None | Some e \<Rightarrow> Some (Wrapped msg e))"

section \<open>The key-value store (package kv)\<close>

text \<open>
  A bolt bucket keeps its keys in byte order; it is an association list with sorted
  insertion, so that \<open>ForEach\<close> and a cursor visit the keys in that order.
  \<open>Get\<close> of a key that is not there is nil, here \<open>None\<close>.
\<close>

type_synonym 'v bucket = "(bytes \<times> 'v) list"

definition bkt_get :: "'v bucket \<Rightarrow> bytes \<Rightarrow> 'v option" where
  "bkt_get b k = map_of b k"

fun bkt_put :: "bytes \<Rightarrow> 'v \<Rightarrow> 'v bucket \<Rightarrow> 'v bucket" where
  "bkt_put k v [] = [(k, v)]"
| "bkt_put k v ((k', v') # r) =
     (if k = k' then (k, v) # r
      else if k < k' then (k, v) # (k', v') # r
      else (k', v') # bkt_put k v r)"

text \<open>
  \<open>kv.Store\<close> (named \<open>KVStore\<close> here, the fork-choice store is \<open>Store\<close> too): one
  association list per bolt bucket, from key bytes to value bytes. The state bucket
  and the latest votes are read and written by files that are not part of the sources
  at hand; they are maps.
\<close>

record KVStore =
  blocksBucket :: "bytes bucket"
  validatorsBucket :: "bytes bucket"
  parentRootIndicesBucket :: "bytes bucket"
  blockSlotIndicesBucket :: "bytes bucket"
  stateBucket :: "bytes \<rightharpoonup> BeaconState"
  latestVotes :: "u64 \<rightharpoonup> LatestMessage"

definition emptyKV :: KVStore where
  "emptyKV = \<lparr>blocksBucket = [], validatorsBucket = [], parentRootIndicesBucket = [],
     blockSlotIndicesBucket = [], stateBucket = Map.empty, latestVotes = Map.empty\<rparr>"

text \<open>
  The constants and external functions the packages use and the sources at hand do
  not define: the beacon configuration (\<open>params.BeaconConfig()\<close>), the keys of
  \<open>schema.go\<close>, the wire codec \<open>proto.Marshal\<close> and \<open>proto.Unmarshal\<close>,
  \<open>ssz.SigningRoot\<close> and \<open>hashutil.HashProto\<close>. Each of the four functions may
  return an error, here \<open>None\<close>. The last four fields say which calls of the state
  store, of the vote store and of \<open>helpers.ActiveValidatorIndices\<close> fail, and with which
  error (\<open>None\<close> when the call succeeds).
\<close>

record Env =
  SlotsPerEpoch :: u64
  SecondsPerSlot :: u64
  headBlockRootKey :: bytes
  parentRootIdx :: bytes
  Marshal :: "BeaconBlock \<Rightarrow> bytes option"
  Unmarshal :: "bytes \<Rightarrow> BeaconBlock option"
  SigningRoot :: "BeaconBlock \<Rightarrow> bytes option"
  HashProto :: "Checkpoint \<Rightarrow> bytes option"
  StateError :: "bytes \<Rightarrow> error option"
  SaveStateError :: "BeaconState \<Rightarrow> bytes \<Rightarrow> error option"
  LatestVoteError :: "u64 \<Rightarrow> error option"
  ActiveIndicesError :: "BeaconState \<Rightarrow> u64 \<Rightarrow> error option"

text \<open>\<open>proto.Unmarshal(enc, block)\<close> followed by \<open>return block, err\<close>.\<close>

definition decodeBlock :: "Env \<Rightarrow> bytes \<Rightarrow> error + BeaconBlock option" where
  "decodeBlock env e =
     (case Unmarshal env e of None \<Rightarrow> Inl CorruptEncoding | Some b \<Rightarrow> Inr (Some b))"

text \<open>\<open>Block\<close>: retrieval by root. The block returned is allocated before the lookup,
  so a root that is not in the bucket gives the empty block, not nil.\<close>

definition Block :: "Env \<Rightarrow> KVStore \<Rightarrow> bytes \<Rightarrow> error + BeaconBlock option" where
  "Block env k blockRoot =
     (case bkt_get (blocksBucket k) blockRoot of
        None \<Rightarrow> Inr (Some emptyBlock)
      | Some e \<Rightarrow> decodeBlock env e)"

text \<open>\<open>HasBlock\<close>.\<close>

definition HasBlock :: "KVStore \<Rightarrow> bytes \<Rightarrow> bool" where
  "HasBlock k blockRoot = (bkt_get (blocksBucket k) blockRoot \<noteq> None)"

text \<open>\<open>HeadBlock\<close>: both reads go to the validators bucket.\<close>

definition HeadBlock :: "Env \<Rightarrow> KVStore \<Rightarrow> error + BeaconBlock option" where
  "HeadBlock env k =
     (case bkt_get (validatorsBucket k) (headBlockRootKey env) of
        None \<Rightarrow> Inr (Some emptyBlock)
      | Some headRoot \<Rightarrow>
          (case bkt_get (validatorsBucket k) headRoot of
             None \<Rightarrow> Inr (Some emptyBlock)
           | Some e \<Rightarrow> decodeBlock env e))"

text \<open>\<open>SaveHeadBlockRoot\<close>: the write goes to the blocks bucket.\<close>

definition SaveHeadBlockRoot :: "Env \<Rightarrow> KVStore \<Rightarrow> bytes \<Rightarrow> KVStore" where
  "SaveHeadBlockRoot env k blockRoot =
     k\<lparr>blocksBucket := bkt_put (headBlockRootKey env) blockRoot (blocksBucket k)\<rparr>"

text \<open>Modelled from the spec: \<open>uint64ToBytes\<close> (the kv package's helper, not among the
  sources at hand) makes the key of a slot; the spec's persisted layout says "8-byte
  big-endian slots".
\<close>

definition uint64ToBytes :: "u64 \<Rightarrow> bytes" where
  "uint64ToBytes i = map (\<lambda>n. ucast (drop_bit (8 * n) i)) [7, 6, 5, 4, 3, 2, 1, (0::nat)]"

text \<open>
  The loop \<open>for i := 0; i < len(v); i += 32 { splitRoots = append(splitRoots, v[i:i+32]) }\<close>
  of \<open>Blocks\<close>. Every value of an index is a concatenation of 32-byte roots, so the
  last slice is never short (Go would panic on a short one).
\<close>

fun splitRoots :: "bytes \<Rightarrow> bytes list" where
  "splitRoots v = (if v = [] then [] else take 32 v # splitRoots (drop 32 v))"

declare splitRoots.simps [simp del]

text \<open>The two index buckets, as \<open>tx.Bucket(name)\<close> returns them.\<close>

datatype bucketName = ParentRootIndices | BlockSlotIndices

fun txBucket :: "KVStore \<Rightarrow> bucketName \<Rightarrow> bytes bucket" where
  "txBucket k ParentRootIndices = parentRootIndicesBucket k"
| "txBucket k BlockSlotIndices = blockSlotIndicesBucket k"

fun txPut :: "KVStore \<Rightarrow> bucketName \<Rightarrow> bytes \<Rightarrow> bytes \<Rightarrow> KVStore" where
  "txPut k ParentRootIndices idx v =
     k\<lparr>parentRootIndicesBucket := bkt_put idx v (parentRootIndicesBucket k)\<rparr>"
| "txPut k BlockSlotIndices idx v =
     k\<lparr>blockSlotIndicesBucket := bkt_put idx v (blockSlotIndicesBucket k)\<rparr>"

text \<open>Modelled from the spec: \<open>updateValueForIndicesMap\<close> (not among the sources at hand).
  The spec's indices map a key to a set of roots (\<open>parent_root_index: bytes32 \<rightarrow>
  set<bytes32>\<close>, \<open>slot_index: u64 \<rightarrow> set<bytes32>\<close>) and \<open>put_block\<close> "updates the
  parent-root and slot secondary indices": the root joins the set stored under each
  index key. The set is stored as the concatenation of its roots, which is how
  \<open>Blocks\<close> reads it.
\<close>

fun updateValueForIndicesMap :: "(bucketName \<times> bytes) list \<Rightarrow> bytes \<Rightarrow> KVStore \<Rightarrow> KVStore" where
  "updateValueForIndicesMap [] root k = k"
| "updateValueForIndicesMap ((bn, idx) # rest) root k =
     updateValueForIndicesMap rest root
       (case bkt_get (txBucket k bn) idx of
          None \<Rightarrow> txPut k bn idx root
        | Some valuesAtIndex \<Rightarrow>
            if root \<in> set (splitRoots valuesAtIndex) then k
            else txPut k bn idx (valuesAtIndex @ root))"

text \<open>Modelled from the spec: \<open>lookupValuesForIndicesMap\<close> (not among the sources at hand)
  returns, for each index key, the roots stored under it ("children lookup").
\<close>

definition lookupValuesForIndicesMap :: "KVStore \<Rightarrow> (bucketName \<times> bytes) list \<Rightarrow> bytes list list" where
  "lookupValuesForIndicesMap k indicesByBucket =
     map (\<lambda>(bn, idx). case bkt_get (txBucket k bn) idx of
                         None \<Rightarrow> [] | Some roots \<Rightarrow> splitRoots roots) indicesByBucket"

text \<open>Modelled from the spec: \<open>sliceutil.IntersectionByteSlices\<close> (not among the sources at
  hand) is the spec's "intersection of the per-criterion candidate sets": the roots
  common to all the lists given, and no root when no list is given.\<close>

fun IntersectionByteSlices :: "bytes list list \<Rightarrow> bytes list" where
  "IntersectionByteSlices [] = []"
| "IntersectionByteSlices [s] = s"
| "IntersectionByteSlices (s # t # rest) =
     IntersectionByteSlices (filter (\<lambda>x. x \<in> set s) t # rest)"

text \<open>Modelled from the spec: \<open>sliceutil.UnionByteSlices\<close> (not among the sources at hand) is
  the union of the lists given (the candidate set of a slot range is the union of the
  sets of its slots), and no root when no list is given.\<close>

fun UnionByteSlices :: "bytes list list \<Rightarrow> bytes list" where
  "UnionByteSlices [] = []"
| "UnionByteSlices [s] = s"
| "UnionByteSlices (s # t # rest) =
     UnionByteSlices ((s @ filter (\<lambda>x. x \<notin> set s) t) # rest)"

text \<open>\<open>SaveBlock\<close>: the root and the encoding first, then the two indices and the
  block in one update.\<close>

definition SaveBlock :: "Env \<Rightarrow> KVStore \<Rightarrow> BeaconBlock \<Rightarrow> error + KVStore" where
  "SaveBlock env k block =
     (case SigningRoot env block of
        None \<Rightarrow> Inl SigningRootFailed
      | Some blockRoot \<Rightarrow>
          (case Marshal env block of
             None \<Rightarrow> Inl CorruptEncoding
           | Some e \<Rightarrow>
               (let indicesByBucket =
                      [(ParentRootIndices, parentRootIdx env @ ParentRoot block),
                       (BlockSlotIndices, uint64ToBytes (Slot block))];
                    k' = updateValueForIndicesMap indicesByBucket blockRoot k
                in Inr (k'\<lparr>blocksBucket := bkt_put blockRoot e (blocksBucket k')\<rparr>))))"

text \<open>Modelled from the spec: \<open>filters.QueryFilter\<close> (package filters is not among the
  sources at hand). The spec's filter "supports \<open>parent_root = R\<close> and \<open>start_slot \<le> s \<le>
  end_slot\<close>"; \<open>Blocks\<close> reads it as a map from criterion to value, here one optional
  field per criterion. A nil filter is \<open>None\<close>.\<close>

record QueryFilter =
  fParentRoot :: "bytes option"
  fStartSlot :: "u64 option"
  fEndSlot :: "u64 option"

text \<open>Modelled from the spec: \<open>filters.NewFilter\<close> (not among the sources at hand), the filter
  with no criterion.\<close>

definition NewFilter :: QueryFilter where
  "NewFilter = \<lparr>fParentRoot = None, fStartSlot = None, fEndSlot = None\<rparr>"

text \<open>Modelled from the spec: \<open>SetParentRoot\<close> of package filters (not among the sources at
  hand) sets the criterion \<open>parent_root = R\<close>.\<close>

definition SetParentRoot :: "bytes \<Rightarrow> QueryFilter \<Rightarrow> QueryFilter" where
  "SetParentRoot r f = f\<lparr>fParentRoot := Some r\<rparr>"

text \<open>Modelled from the spec: \<open>SetStartSlot\<close> of package filters (not among the sources at
  hand) sets the lower bound \<open>start_slot\<close> of the range.\<close>

definition SetStartSlot :: "u64 \<Rightarrow> QueryFilter \<Rightarrow> QueryFilter" where
  "SetStartSlot sl f = f\<lparr>fStartSlot := Some sl\<rparr>"

text \<open>Modelled from the spec: \<open>SetEndSlot\<close> of package filters (not among the sources at hand)
  sets the upper bound \<open>end_slot\<close> of the range.\<close>

definition SetEndSlot :: "u64 \<Rightarrow> QueryFilter \<Rightarrow> QueryFilter" where
  "SetEndSlot sl f = f\<lparr>fEndSlot := Some sl\<rparr>"

text \<open>\<open>createBlockIndicesFromFilters\<close>: only the parent root makes an index key; every
  other criterion falls into the empty \<open>default\<close> case.\<close>

definition createBlockIndicesFromFilters :: "Env \<Rightarrow> QueryFilter \<Rightarrow> (bucketName \<times> bytes) list" where
  "createBlockIndicesFromFilters env f =
     (case fParentRoot f of
        None \<Rightarrow> []
      | Some parentRoot \<Rightarrow> [(ParentRootIndices, parentRootIdx env @ parentRoot)])"

text \<open>Decoding the values one after the other; the first error ends the call.\<close>

fun decodeAll :: "Env \<Rightarrow> bytes list \<Rightarrow> error + BeaconBlock list" where
  "decodeAll env [] = Inr []"
| "decodeAll env (v # vs) =
     (case Unmarshal env v of
        None \<Rightarrow> Inl CorruptEncoding
      | Some block \<Rightarrow>
          (case decodeAll env vs of Inl err \<Rightarrow> Inl err | Inr blocks \<Rightarrow> Inr (block # blocks)))"

text \<open>The cursor loop of \<open>Blocks\<close>: from the first key at or after \<open>min\<close>, while the key
  is at most \<open>max\<close>.\<close>

definition cursorRange :: "bytes bucket \<Rightarrow> bytes \<Rightarrow> bytes \<Rightarrow> bytes list list" where
  "cursorRange b mn mx =
     map (\<lambda>(k, v). splitRoots v)
       (takeWhile (\<lambda>(k, v). k \<le> mx) (dropWhile (\<lambda>(k, v). k < mn) b))"

text \<open>\<open>Blocks\<close>. A key that is not in the blocks bucket is read as nil and decoded.\<close>

definition Blocks :: "Env \<Rightarrow> KVStore \<Rightarrow> QueryFilter option \<Rightarrow> error + BeaconBlock list" where
  "Blocks env k fo =
     (case fo of
        None \<Rightarrow> decodeAll env (map snd (blocksBucket k))
      | Some f \<Rightarrow>
          (let vals = (case (fStartSlot f, fEndSlot f) of
                         (Some startSlot, Some endSlot) \<Rightarrow>
                           cursorRange (blockSlotIndicesBucket k)
                             (uint64ToBytes startSlot) (uint64ToBytes endSlot)
                       | _ \<Rightarrow> []);
               indicesByBucket = createBlockIndicesFromFilters env f;
               indices = lookupValuesForIndicesMap k indicesByBucket;
               keys = (if length indices > 0
                       then IntersectionByteSlices (vals @ lookupValuesForIndicesMap k indicesByBucket)
                       else UnionByteSlices vals)
           in decodeAll env
                (map (\<lambda>key. case bkt_get (blocksBucket k) key of None \<Rightarrow> [] | Some e \<Rightarrow> e) keys)))"

text \<open>\<open>BlockRoots\<close>: the signing roots of the blocks \<open>Blocks\<close> returns.\<close>

fun signingRoots :: "Env \<Rightarrow> BeaconBlock list \<Rightarrow> error + bytes list" where
  "signingRoots env [] = Inr []"
| "signingRoots env (b # bs) =
     (case SigningRoot env b of
        None \<Rightarrow> Inl SigningRootFailed
      | Some root \<Rightarrow>
          (case signingRoots env bs of Inl err \<Rightarrow> Inl err | Inr roots \<Rightarrow> Inr (root # roots)))"

definition BlockRoots :: "Env \<Rightarrow> KVStore \<Rightarrow> QueryFilter option \<Rightarrow> error + bytes list" where
  "BlockRoots env k fo =
     (case Blocks env k fo of Inl err \<Rightarrow> Inl err | Inr blocks \<Rightarrow> signingRoots env blocks)"

text \<open>Modelled from the spec: \<open>State\<close> of the kv package (not among the sources at hand) is
  the spec's \<open>get_state(root) \<rightarrow> Option<State>\<close>: \<open>None\<close> for a root without a state. The
  persistence interface has the failure modes \<open>CorruptEncoding\<close> and \<open>IoFailure\<close>; the
  callers test the error returned, which is the one the environment gives for the
  root.\<close>

definition State :: "Env \<Rightarrow> KVStore \<Rightarrow> bytes \<Rightarrow> error + BeaconState option" where
  "State env k blockRoot =
     (case StateError env blockRoot of
        Some err \<Rightarrow> Inl err
      | None \<Rightarrow> Inr (stateBucket k blockRoot))"

text \<open>Modelled from the spec: \<open>SaveState\<close> of the kv package (not among the sources at hand)
  is the spec's \<open>put_state(state, block_root)\<close>: the state is stored under the block
  root. A write that fails (the error the environment gives for it) stores nothing.\<close>

definition SaveState :: "Env \<Rightarrow> KVStore \<Rightarrow> BeaconState \<Rightarrow> bytes \<Rightarrow> error + KVStore" where
  "SaveState env k st blockRoot =
     (case SaveStateError env st blockRoot of
        Some err \<Rightarrow> Inl err
      | None \<Rightarrow> Inr (k\<lparr>stateBucket := (stateBucket k)(blockRoot \<mapsto> st)\<rparr>))"

text \<open>Modelled from the spec: \<open>ValidatorLatestVote\<close> of the kv package (not among the sources
  at hand) is the spec's \<open>get_latest_vote(validator_index) \<rightarrow> Option<Vote>\<close>, with the
  error the environment gives for the index when the read fails.\<close>

definition ValidatorLatestVote :: "Env \<Rightarrow> KVStore \<Rightarrow> u64 \<Rightarrow> error + LatestMessage option" where
  "ValidatorLatestVote env k i =
     (case LatestVoteError env i of
        Some err \<Rightarrow> Inl err
      | None \<Rightarrow> Inr (latestVotes k i))"

section \<open>The fork-choice store (package forkchoice)\<close>

text \<open>Modelled from the spec: \<open>bytesutil.ToBytes32\<close> (not among the sources at hand) makes
  the spec's \<open>bytes32\<close> of a byte slice: the first 32 bytes, zero-filled on the right when
  the slice is shorter.\<close>

definition ToBytes32 :: "bytes \<Rightarrow> bytes" where
  "ToBytes32 x = take 32 x @ replicate (32 - length x) 0"

text \<open>Modelled from the spec: \<open>helpers.CurrentEpoch\<close> (not among the sources at hand). The
  glossary has \<open>slot = epoch * SLOTS_PER_EPOCH + offset\<close>, so the epoch of a state is its
  slot divided by \<open>SlotsPerEpoch\<close>. The configured \<open>SlotsPerEpoch\<close> is positive (Go would
  panic on a division by zero, HOL gives 0).\<close>

definition CurrentEpoch :: "Env \<Rightarrow> BeaconState \<Rightarrow> u64" where
  "CurrentEpoch env st = StateSlot st div SlotsPerEpoch env"

text \<open>Modelled from the spec: \<open>helpers.StartSlot\<close> (not among the sources at hand), the spec's
  \<open>finalized.epoch * SLOTS_PER_EPOCH\<close>.\<close>

definition StartSlot :: "Env \<Rightarrow> u64 \<Rightarrow> u64" where
  "StartSlot env epoch = epoch * SlotsPerEpoch env"

text \<open>Modelled from the spec: the glossary's "active validator: a validator whose
  activation epoch \<le> current epoch < exit epoch".\<close>

definition IsActiveValidator :: "Validator \<Rightarrow> u64 \<Rightarrow> bool" where
  "IsActiveValidator v epoch = (ActivationEpoch v \<le> epoch \<and> epoch < ExitEpoch v)"

text \<open>Modelled from the spec: \<open>helpers.ActiveValidatorIndices\<close> (not among the sources at
  hand) is the spec's \<open>active_indices(S, epoch)\<close>: the indices of the validators of the
  state that are active at the epoch, in order. The source tests the error it returns,
  which is the one the environment gives.\<close>

definition ActiveValidatorIndices :: "Env \<Rightarrow> BeaconState \<Rightarrow> u64 \<Rightarrow> error + u64 list" where
  "ActiveValidatorIndices env st epoch =
     (case ActiveIndicesError env st epoch of
        Some err \<Rightarrow> Inl err
      | None \<Rightarrow>
          Inr (map of_nat
                 (filter (\<lambda>i. IsActiveValidator (Validators st ! i) epoch) [0 ..< length (Validators st)])))"

text \<open>
  \<open>forkchoice.Store\<close>, once \<open>GenesisStore\<close> has set both checkpoints. \<open>checkptBlkRoot\<close>
  is a Go map to \<open>[32]byte\<close>: a key that is not there reads as 32 zero bytes.
\<close>

record Store =
  db :: KVStore
  justifiedCheckpt :: Checkpoint
  finalizedCheckpt :: Checkpoint
  checkptBlkRoot :: "bytes \<rightharpoonup> bytes"

definition checkptBlkRootAt :: "Store \<Rightarrow> bytes \<Rightarrow> bytes" where
  "checkptBlkRootAt s h = (case checkptBlkRoot s h of None \<Rightarrow> replicate 32 0 | Some r \<Rightarrow> r)"

text \<open>
  \<open>ancestor\<close>. The result is \<open>None\<close> when the recursion does not end (parent roots that
  form a cycle above the slot), \<open>Some (Inl err)\<close> for an error, \<open>Some (Inr None)\<close> for the
  nil root and \<open>Some (Inr (Some r))\<close> for the root \<open>r\<close>.
\<close>

partial_function (option) ancestor :: "Env \<Rightarrow> KVStore \<Rightarrow> bytes \<Rightarrow> u64 \<Rightarrow> (error + bytes option) option" where
  "ancestor env k root slot =
     (case Block env k (ToBytes32 root) of
        Inl err \<Rightarrow> Some (Inl (Wrapped ''could not get ancestor block'' err))
      | Inr None \<Rightarrow> Some (Inr None)
      | Inr (Some b) \<Rightarrow>
          if Slot b < slot then Some (Inr None)
          else if Slot b = slot then Some (Inr (Some root))
          else ancestor env k (ParentRoot b) slot)"

text \<open>A root as \<open>bytes.Equal\<close> sees it: nil is the empty slice.\<close>

definition sliceOf :: "bytes option \<Rightarrow> bytes" where
  "sliceOf r = (case r of None \<Rightarrow> [] | Some x \<Rightarrow> x)"

text \<open>
  The loop of \<open>latestAttestingBalance\<close> over the active indices. \<open>wantedBlk.Slot\<close> of a
  nil block is a nil dereference, the error \<open>NilDereference\<close>.
\<close>

fun sumBalances :: "Env \<Rightarrow> KVStore \<Rightarrow> BeaconState \<Rightarrow> BeaconBlock option \<Rightarrow> bytes \<Rightarrow> u64 list \<Rightarrow> u64
    \<Rightarrow> (error + u64) option" where
  "sumBalances env k st wantedBlk root [] balances = Some (Inr balances)"
| "sumBalances env k st wantedBlk root (i # rest) balances =
     (case ValidatorLatestVote env k i of
        Inl err \<Rightarrow> Some (Inl (Wrapped ''could not get validator's latest vote'' err))
      | Inr None \<Rightarrow> sumBalances env k st wantedBlk root rest balances
      | Inr (Some vote) \<Rightarrow>
          (case wantedBlk of
             None \<Rightarrow> Some (Inl NilDereference)
           | Some wb \<Rightarrow>
               (case ancestor env k (VoteRoot vote) (Slot wb) of
                  None \<Rightarrow> None
                | Some (Inl err) \<Rightarrow> Some (Inl (Wrapped ''could not get ancestor root'' err))
                | Some (Inr wantedRoot) \<Rightarrow>
                    if sliceOf wantedRoot = root
                    then sumBalances env k st wantedBlk root rest
                           (balances + EffectiveBalance (Validators st ! unat i))
                    else sumBalances env k st wantedBlk root rest balances)))"

text \<open>\<open>latestAttestingBalance\<close>. With no justified state the function returns
  \<open>0, errors.Wrapf(err, ...)\<close> where \<open>err\<close> is nil, that is 0 and no error.\<close>

definition latestAttestingBalance :: "Env \<Rightarrow> Store \<Rightarrow> bytes \<Rightarrow> (error + u64) option" where
  "latestAttestingBalance env s root =
     (case HashProto env (justifiedCheckpt s) of
        None \<Rightarrow> Some (Inl (Wrapped ''could not hash proto justified checkpoint'' HashProtoFailed))
      | Some h \<Rightarrow>
          (case State env (db s) (checkptBlkRootAt s h) of
             Inl err \<Rightarrow> Some (Inl (Wrapped ''could not get checkpoint state'' err))
           | Inr None \<Rightarrow>
               (case Wrap None ''could not get justified state'' of
                  None \<Rightarrow> Some (Inr 0) | Some err \<Rightarrow> Some (Inl err))
           | Inr (Some lastJustifiedState) \<Rightarrow>
               (let lastJustifiedEpoch = CurrentEpoch env lastJustifiedState
                in case ActiveValidatorIndices env lastJustifiedState lastJustifiedEpoch of
                     Inl err \<Rightarrow> Some (Inl (Wrapped ''could not get active indices'' err))
                   | Inr activeIndices \<Rightarrow>
                       (case Block env (db s) (ToBytes32 root) of
                          Inl err \<Rightarrow> Some (Inl (Wrapped ''could not get target block'' err))
                        | Inr wantedBlk \<Rightarrow>
                            sumBalances env (db s) lastJustifiedState wantedBlk root activeIndices 0))))"

text \<open>The loop of \<open>Head\<close> over \<open>children[1:]\<close>: the balance of each child, the best
  one so far in \<open>head\<close> with its balance in \<open>highest\<close>.\<close>

fun bestChild :: "Env \<Rightarrow> Store \<Rightarrow> bytes list \<Rightarrow> bytes \<Rightarrow> u64 \<Rightarrow> (error + bytes) option" where
  "bestChild env s [] head highest = Some (Inr head)"
| "bestChild env s (child # rest) head highest =
     (case latestAttestingBalance env s child of
        None \<Rightarrow> None
      | Some (Inl err) \<Rightarrow> Some (Inl (Wrapped ''could not get latest balance'' err))
      | Some (Inr balance) \<Rightarrow>
          if balance > highest \<or> balance = highest \<and> child > head
          then bestChild env s rest child balance
          else bestChild env s rest head highest)"

text \<open>The children \<open>Head\<close> asks the store for at \<open>head\<close>.\<close>

definition headChildren :: "Env \<Rightarrow> Store \<Rightarrow> bytes \<Rightarrow> error + bytes list" where
  "headChildren env s head =
     (let startSlot = Epoch (justifiedCheckpt s) * SlotsPerEpoch env;
          filter = SetStartSlot startSlot (SetParentRoot head NewFilter)
      in BlockRoots env (db s) (Some filter))"

text \<open>The \<open>for\<close> loop of \<open>Head\<close>; \<open>None\<close> when it does not end.\<close>

partial_function (option) headLoop :: "Env \<Rightarrow> Store \<Rightarrow> bytes \<Rightarrow> (error + bytes) option" where
  "headLoop env s head =
     (case headChildren env s head of
        Inl err \<Rightarrow> Some (Inl (Wrapped ''could not retrieve children info'' err))
      | Inr [] \<Rightarrow> Some (Inr head)
      | Inr (c # rest) \<Rightarrow>
          if length (c # rest) > 1
          then (case latestAttestingBalance env s c of
                  None \<Rightarrow> None
                | Some (Inl err) \<Rightarrow> Some (Inl (Wrapped ''could not get latest balance'' err))
                | Some (Inr highest) \<Rightarrow>
                    (case bestChild env s rest c highest of
                       None \<Rightarrow> None
                     | Some (Inl err) \<Rightarrow> Some (Inl err)
                     | Some (Inr h) \<Rightarrow> headLoop env s h))
          else headLoop env s c)"

declare ancestor.simps [code]
declare headLoop.simps [code]

definition Head :: "Env \<Rightarrow> Store \<Rightarrow> (error + bytes) option" where
  "Head env s = headLoop env s (Root (justifiedCheckpt s))"

subsection \<open>Block admission (\<open>process_block.go\<close>)\<close>

text \<open>\<open>verifyBlkPreState\<close>.\<close>

definition verifyBlkPreState :: "Env \<Rightarrow> Store \<Rightarrow> BeaconBlock \<Rightarrow> error + BeaconState" where
  "verifyBlkPreState env s b =
     (case State env (db s) (ToBytes32 (ParentRoot b)) of
        Inl err \<Rightarrow> Inl (Wrapped ''could not get pre state'' err)
      | Inr None \<Rightarrow> Inl MissingPreState
      | Inr (Some preState) \<Rightarrow> Inr preState)"

text \<open>\<open>verifyBlkSlotTime\<close>; \<open>now\<close> is \<open>uint64(time.Now().Unix())\<close>. The sum wraps as
  \<open>uint64\<close> does.\<close>

definition verifyBlkSlotTime :: "Env \<Rightarrow> u64 \<Rightarrow> u64 \<Rightarrow> u64 \<Rightarrow> error option" where
  "verifyBlkSlotTime env now gensisTime blkSlot =
     (let slotTime = gensisTime + blkSlot * SecondsPerSlot env
      in if slotTime > now then Some FutureSlot else None)"

text \<open>\<open>verifyBlkDescendant\<close>. \<open>errors.Wrap(err, ...)\<close> of a nil \<open>err\<close> is nil, so a nil
  finalized block without an error passes.\<close>

definition verifyBlkDescendant :: "Env \<Rightarrow> Store \<Rightarrow> bytes \<Rightarrow> error option option" where
  "verifyBlkDescendant env s root =
     (case Block env (db s) (ToBytes32 (Root (finalizedCheckpt s))) of
        Inl err \<Rightarrow> Some (Wrap (Some err) ''could not get finalized block'')
      | Inr None \<Rightarrow> Some (Wrap None ''could not get finalized block'')
      | Inr (Some finalizedBlk) \<Rightarrow>
          (case ancestor env (db s) root (Slot finalizedBlk) of
             None \<Rightarrow> None
           | Some (Inl err) \<Rightarrow> Some (Wrap (Some err) ''could not get finalized block root'')
           | Some (Inr bFinalizedRoot) \<Rightarrow>
               if sliceOf bFinalizedRoot \<noteq> Root (finalizedCheckpt s)
               then Some (Some NotDescendantOfFinalized)
               else Some None))"

text \<open>\<open>verifyBlkFinalizedSlot\<close>.\<close>

definition verifyBlkFinalizedSlot :: "Env \<Rightarrow> Store \<Rightarrow> BeaconBlock \<Rightarrow> error option" where
  "verifyBlkFinalizedSlot env s b =
     (let finalizedSlot = StartSlot env (Epoch (finalizedCheckpt s))
      in if finalizedSlot \<ge> Slot b then Some BeforeFinalized else None)"

text \<open>
  \<open>OnBlock\<close>: the error returned (\<open>None\<close> for nil) and the store after the call. The
  outer \<open>option\<close> is \<open>None\<close> when \<open>ancestor\<close> does not return. \<open>now\<close> is the clock
  read by \<open>verifyBlkSlotTime\<close>; \<open>ExecuteStateTransition\<close> is the external
  \<open>state.ExecuteStateTransition\<close>, which may fail (\<open>None\<close>). After the two writes the
  justified checkpoint is replaced; of the finalized checkpoint only the epoch is
  assigned. When the write of the state fails, the block has been written: the store
  returned holds it. The helper caches cleared on a new finalized epoch and the epoch log are
  not part of the store.
\<close>

definition OnBlock :: "Env \<Rightarrow> (BeaconState \<Rightarrow> BeaconBlock \<Rightarrow> BeaconState option) \<Rightarrow> u64 \<Rightarrow> Store
    \<Rightarrow> BeaconBlock \<Rightarrow> (error option \<times> Store) option" where
  "OnBlock env ExecuteStateTransition now s b =
     (case verifyBlkPreState env s b of
        Inl err \<Rightarrow> Some (Some err, s)
      | Inr preState \<Rightarrow>
     (case verifyBlkSlotTime env now (GenesisTime preState) (Slot b) of
        Some err \<Rightarrow> Some (Some err, s)
      | None \<Rightarrow>
     (case SigningRoot env b of
        None \<Rightarrow> Some (Some (Wrapped ''could not get signing root of block'' SigningRootFailed), s)
      | Some root \<Rightarrow>
     (case verifyBlkDescendant env s root of
        None \<Rightarrow> None
      | Some (Some err) \<Rightarrow> Some (Some err, s)
      | Some None \<Rightarrow>
     (case verifyBlkFinalizedSlot env s b of
        Some err \<Rightarrow> Some (Some err, s)
      | None \<Rightarrow>
     (case ExecuteStateTransition preState b of
        None \<Rightarrow> Some (Some (Wrapped ''could not execute state transition'' StateTransitionFailed), s)
      | Some postState \<Rightarrow>
     (case SaveBlock env (db s) b of
        Inl err \<Rightarrow> Some (Some (Wrapped ''could not save block'' err), s)
      | Inr k1 \<Rightarrow>
     (case SaveState env k1 postState root of
        Inl err \<Rightarrow> Some (Some (Wrapped ''could not save state'' err), s\<lparr>db := k1\<rparr>)
      | Inr k2 \<Rightarrow>
          (let s1 = s\<lparr>db := k2\<rparr>;
               s2 = (if Epoch (CurrentJustifiedCheckpoint postState) > Epoch (justifiedCheckpt s1)
                     then s1\<lparr>justifiedCheckpt := CurrentJustifiedCheckpoint postState\<rparr>
                     else s1);
               s3 = (if Epoch (FinalizedCheckpoint postState) > Epoch (finalizedCheckpt s2)
                     then s2\<lparr>finalizedCheckpt :=
                            (finalizedCheckpt s2)\<lparr>Epoch := Epoch (FinalizedCheckpoint postState)\<rparr>\<rparr>
                     else s2)
           in Some (None, s3))))))))))"

section \<open>Gossip validation of proposer slashings (package sync)\<close>

record BeaconBlockHeader =
  HeaderSlot :: u64
  HeaderParentRoot :: bytes
  HeaderStateRoot :: bytes
  HeaderBodyRoot :: bytes
  HeaderSignature :: bytes

record ProposerSlashing =
  ProposerIndex :: u64
  Header_1 :: BeaconBlockHeader
  Header_2 :: BeaconBlockHeader

text \<open>A \<open>proto.Message\<close>: a proposer slashing or a message of another type.\<close>

datatype Message = ProposerSlashingMsg ProposerSlashing | OtherMsg bytes

text \<open>
  What the validator uses and the sources at hand do not define:
  \<open>hashutil.HashProto\<close> of a slashing (\<open>None\<close> for an error), the prefix \<open>invalid\<close> of
  the negative key and the predicate \<open>blocks.VerifyProposerSlashing\<close> (true for a nil
  error).
\<close>

record SyncEnv =
  HashSlashing :: "ProposerSlashing \<Rightarrow> bytes option"
  invalid :: bytes
  VerifyProposerSlashing :: "BeaconState \<Rightarrow> ProposerSlashing \<Rightarrow> bool"

text \<open>What a call does that the outside can see, in order.\<close>

datatype event = PredicateRun ProposerSlashing | Broadcast ProposerSlashing | Logged string

text \<open>
  The process-wide state: the cache \<open>seenProposerSlashings\<close> (a \<open>ccache\<close>, whose \<open>Get\<close>
  returns the item set under a key until it is evicted; no eviction happens here) and
  the events so far.
\<close>

record SyncState =
  seenProposerSlashings :: "bytes \<rightharpoonup> bool"
  events :: "event list"

definition propSlashingCacheKey :: "SyncEnv \<Rightarrow> ProposerSlashing \<Rightarrow> bytes option" where
  "propSlashingCacheKey env slashing = HashSlashing env slashing"

text \<open>
  \<open>validateProposerSlashing\<close>: the verdict and the state after the call. \<open>headState\<close>
  is what \<open>r.db.HeadState\<close> returns at this call (\<open>None\<close> for an error) and
  \<open>broadcastOk\<close> tells whether \<open>p.Broadcast\<close> returns nil at this call.
\<close>

definition validateProposerSlashing :: "SyncEnv \<Rightarrow> BeaconState option \<Rightarrow> bool \<Rightarrow> Message \<Rightarrow> SyncState
    \<Rightarrow> bool \<times> SyncState" where
  "validateProposerSlashing env headState broadcastOk msg st =
     (case msg of
        OtherMsg _ \<Rightarrow> (False, st)
      | ProposerSlashingMsg slashing \<Rightarrow>
          (case propSlashingCacheKey env slashing of
             None \<Rightarrow> (False, st\<lparr>events := events st @ [Logged ''could not hash proposer slashing'']\<rparr>)
           | Some cacheKey \<Rightarrow>
               (let invalidKey = invalid env @ cacheKey
                in if seenProposerSlashings st invalidKey \<noteq> None then (False, st)
                   else if seenProposerSlashings st cacheKey \<noteq> None then (False, st)
                   else (case headState of
                           None \<Rightarrow> (False, st\<lparr>events := events st @ [Logged ''Failed to get head state'']\<rparr>)
                         | Some state \<Rightarrow>
                             if \<not> VerifyProposerSlashing env state slashing
                             then (False,
                                   st\<lparr>seenProposerSlashings := (seenProposerSlashings st)(invalidKey \<mapsto> True),
                                      events := events st @ [PredicateRun slashing,
                                                  Logged ''Received invalid proposer slashing'']\<rparr>)
                             else (let st1 = st\<lparr>seenProposerSlashings :=
                                                  (seenProposerSlashings st)(cacheKey \<mapsto> True),
                                                events := events st @ [PredicateRun slashing, Broadcast slashing]\<rparr>
                                   in if broadcastOk then (True, st1)
                                      else (True, st1\<lparr>events := events st1 @
                                                  [Logged ''Failed to propagate proposer slashing'']\<rparr>))))))"

section \<open>A concrete environment\<close>

text \<open>
  The examples below run the code on concrete stores. They need concrete external
  functions: a codec that decodes what it encodes (the empty encoding is the empty
  block, as with protocol buffers), a signing root that tells the blocks of the
  examples apart, a hash of checkpoints, and stores whose reads and writes do not
  fail. The configuration is the one of the specification's scenarios (8 slots per
  epoch, 6 seconds per slot).
\<close>

definition bytesToUint64 :: "bytes \<Rightarrow> u64" where
  "bytesToUint64 bs = foldl (\<lambda>acc b. acc * 256 + ucast b) 0 bs"

definition exMarshal :: "BeaconBlock \<Rightarrow> bytes option" where
  "exMarshal b =
     (if length (ParentRoot b) < 256 \<and> length (StateRoot b) < 256
      then Some (uint64ToBytes (Slot b)
                 @ [of_nat (length (ParentRoot b)), of_nat (length (StateRoot b))]
                 @ ParentRoot b @ StateRoot b @ Signature b)
      else None)"

definition exUnmarshal :: "bytes \<Rightarrow> BeaconBlock option" where
  "exUnmarshal e =
     (if e = [] then Some emptyBlock
      else if length e < 10 then None
      else (let pl = unat (e ! 8); sl = unat (e ! 9); body = drop 10 e
            in if length body < pl + sl then None
               else Some \<lparr>Slot = bytesToUint64 (take 8 e), ParentRoot = take pl body,
                          StateRoot = take sl (drop pl body), Signature = drop (pl + sl) body\<rparr>))"

definition exSigningRoot :: "BeaconBlock \<Rightarrow> bytes option" where
  "exSigningRoot b = Some (replicate 32 (ucast (Slot b) + 1))"

definition exHashProto :: "Checkpoint \<Rightarrow> bytes option" where
  "exHashProto c = Some (ToBytes32 (ucast (Epoch c) # Root c))"

definition exEnv :: Env where
  "exEnv = \<lparr>SlotsPerEpoch = 8, SecondsPerSlot = 6,
     headBlockRootKey = [104, 101, 97, 100, 45, 114, 111, 111, 116],
     parentRootIdx = [112, 97, 114, 101, 110, 116, 45, 114, 111, 111, 116],
     Marshal = exMarshal, Unmarshal = exUnmarshal,
     SigningRoot = exSigningRoot, HashProto = exHashProto,
     StateError = (\<lambda>root. None), SaveStateError = (\<lambda>st root. None),
     LatestVoteError = (\<lambda>i. None), ActiveIndicesError = (\<lambda>st epoch. None)\<rparr>"

text \<open>A block at a slot with a parent root, and the store after saving a list of
  blocks in order, starting from the empty store.\<close>

definition blockAt :: "u64 \<Rightarrow> bytes \<Rightarrow> BeaconBlock" where
  "blockAt sl parent = \<lparr>Slot = sl, ParentRoot = parent, StateRoot = [], Signature = []\<rparr>"

fun saveAll :: "Env \<Rightarrow> KVStore \<Rightarrow> BeaconBlock list \<Rightarrow> KVStore" where
  "saveAll env k [] = k"
| "saveAll env k (b # bs) =
     (case SaveBlock env k b of Inl err \<Rightarrow> k | Inr k' \<Rightarrow> saveAll env k' bs)"

text \<open>The store with a state under a block root.\<close>

definition withState :: "KVStore \<Rightarrow> bytes \<Rightarrow> BeaconState \<Rightarrow> KVStore" where
  "withState k blockRoot st = k\<lparr>stateBucket := (stateBucket k)(blockRoot \<mapsto> st)\<rparr>"

text \<open>
  A chain of three blocks: the genesis block at slot 0 (root \<open>replicate 32 1\<close>), a block
  at slot 8 on it (root \<open>replicate 32 9\<close>) and a block at slot 16 on that (root
  \<open>replicate 32 17\<close>). The state has one validator, active from epoch 0, of balance 32.
\<close>

definition exGenesis :: BeaconBlock where
  "exGenesis = blockAt 0 (replicate 32 0)"

definition exBlockA :: BeaconBlock where
  "exBlockA = blockAt 8 (replicate 32 1)"

definition exBlockB :: BeaconBlock where
  "exBlockB = blockAt 16 (replicate 32 9)"

definition exState :: BeaconState where
  "exState = \<lparr>GenesisTime = 1000, StateSlot = 0,
     Validators = [\<lparr>EffectiveBalance = 32, ActivationEpoch = 0, ExitEpoch = 1000\<rparr>],
     CurrentJustifiedCheckpoint = \<lparr>Epoch = 0, Root = replicate 32 1\<rparr>,
     FinalizedCheckpoint = \<lparr>Epoch = 0, Root = replicate 32 1\<rparr>\<rparr>"

text \<open>The store after \<open>GenesisStore\<close>, with the three blocks saved and the states of the
  first two.\<close>

definition exChainStore :: Store where
  "exChainStore =
     \<lparr>db = withState (withState (saveAll exEnv emptyKV [exGenesis, exBlockA, exBlockB])
                 (replicate 32 1) exState) (replicate 32 9) exState,
      justifiedCheckpt = \<lparr>Epoch = 0, Root = replicate 32 1\<rparr>,
      finalizedCheckpt = \<lparr>Epoch = 0, Root = replicate 32 1\<rparr>,
      checkptBlkRoot = Map.empty(0 # replicate 31 1 \<mapsto> replicate 32 1)\<rparr>"

text \<open>A state transition whose post-state has justified and finalized the block at
  slot 8, at epoch 1.\<close>

definition exTransition :: "BeaconState \<Rightarrow> BeaconBlock \<Rightarrow> BeaconState option" where
  "exTransition pre b =
     Some (pre\<lparr>StateSlot := Slot b,
               CurrentJustifiedCheckpoint := \<lparr>Epoch = 1, Root = replicate 32 9\<rparr>,
               FinalizedCheckpoint := \<lparr>Epoch = 1, Root = replicate 32 9\<rparr>\<rparr>)"

text \<open>The error and the two checkpoints of the store after a call of \<open>OnBlock\<close>.\<close>

definition checkpointsAfter :: "(error option \<times> Store) option
    \<Rightarrow> (error option \<times> Checkpoint \<times> Checkpoint) option" where
  "checkpointsAfter r =
     (case r of None \<Rightarrow> None
      | Some (err, s) \<Rightarrow> Some (err, justifiedCheckpt s, finalizedCheckpt s))"

text \<open>
  A store whose justified checkpoint, at epoch 1, is a block at slot 6 (root
  \<open>replicate 32 7\<close>; slots 7 and 8 are empty on its chain), with a child at slot 7.
\<close>

definition exForkStore :: Store where
  "exForkStore =
     \<lparr>db = saveAll exEnv emptyKV [exGenesis, blockAt 6 (replicate 32 1), blockAt 7 (replicate 32 7)],
      justifiedCheckpt = \<lparr>Epoch = 1, Root = replicate 32 7\<rparr>,
      finalizedCheckpt = \<lparr>Epoch = 0, Root = replicate 32 1\<rparr>,
      checkptBlkRoot = Map.empty(0 # replicate 31 1 \<mapsto> replicate 32 1)\<rparr>"

text \<open>
  The store after \<open>GenesisStore\<close> where the one validator's latest vote is for a root
  (\<open>replicate 32 7\<close>) whose block has not been received.
\<close>

definition exVoteStore :: Store where
  "exVoteStore =
     \<lparr>db = (withState (saveAll exEnv emptyKV [exGenesis]) (replicate 32 1) exState)
              \<lparr>latestVotes := Map.empty(0 \<mapsto> \<lparr>VoteEpoch = 0, VoteRoot = replicate 32 7\<rparr>)\<rparr>,
      justifiedCheckpt = \<lparr>Epoch = 0, Root = replicate 32 1\<rparr>,
      finalizedCheckpt = \<lparr>Epoch = 0, Root = replicate 32 1\<rparr>,
      checkptBlkRoot = Map.empty(0 # replicate 31 1 \<mapsto> replicate 32 1)\<rparr>"

text \<open>
  For the slashing validator: a hash that tells slashings of different proposers
  apart, the negative prefix \<open>invalid\<close>, a predicate that accepts a slashing of a known
  validator with two different headers, a slashing it accepts, one it rejects, and
  the state of a process that has seen nothing.
\<close>

definition exSyncEnv :: SyncEnv where
  "exSyncEnv = \<lparr>HashSlashing = (\<lambda>sl. Some (replicate 32 (ucast (ProposerIndex sl)))),
     invalid = [105, 110, 118, 97, 108, 105, 100],
     VerifyProposerSlashing =
       (\<lambda>st sl. unat (ProposerIndex sl) < length (Validators st) \<and> Header_1 sl \<noteq> Header_2 sl)\<rparr>"

definition exHeader :: "bytes \<Rightarrow> BeaconBlockHeader" where
  "exHeader stateRoot = \<lparr>HeaderSlot = 0, HeaderParentRoot = [], HeaderStateRoot = stateRoot,
     HeaderBodyRoot = [], HeaderSignature = []\<rparr>"

definition exSlashing :: ProposerSlashing where
  "exSlashing = \<lparr>ProposerIndex = 0, Header_1 = exHeader [65], Header_2 = exHeader [66]\<rparr>"

definition exSyncState :: SyncState where
  "exSyncState = \<lparr>seenProposerSlashings = Map.empty, events = []\<rparr>"

text \<open>The events a call added, and the broadcasts and predicate runs among events.\<close>

definition newEvents :: "SyncState \<Rightarrow> SyncState \<Rightarrow> event list" where
  "newEvents before after = drop (length (events before)) (events after)"

fun broadcasts :: "event list \<Rightarrow> ProposerSlashing list" where
  "broadcasts [] = []"
| "broadcasts (Broadcast m # es) = m # broadcasts es"
| "broadcasts (_ # es) = broadcasts es"

fun predicateRuns :: "event list \<Rightarrow> ProposerSlashing list" where
  "predicateRuns [] = []"
| "predicateRuns (PredicateRun m # es) = m # predicateRuns es"
| "predicateRuns (_ # es) = predicateRuns es"

section \<open>The key-value store: results\<close>

text \<open>
  A bucket returns what was put last under a key. After \<open>SaveBlock\<close>, with a codec that
  decodes what it encoded, \<open>Block\<close> returns the block under its signing root and
  \<open>HasBlock\<close> holds.
\<close>

lemma bkt_get_put:
  "bkt_get (bkt_put k v b) k' = (if k' = k then Some v else bkt_get b k')"
  by (induction b) (auto simp: bkt_get_def)

lemma blocksBucket_txPut: "blocksBucket (txPut k bn idx v) = blocksBucket k"
  by (cases bn) simp_all

lemma blocksBucket_updateValueForIndicesMap:
  "blocksBucket (updateValueForIndicesMap idxs root k) = blocksBucket k"
  by (induction idxs root k rule: updateValueForIndicesMap.induct)
     (simp_all add: blocksBucket_txPut split: option.splits)

lemma Block_after_SaveBlock:
  assumes "SaveBlock env k b = Inr k'" and "SigningRoot env b = Some r"
      and "Marshal env b = Some e" and "Unmarshal env e = Some b"
  shows "Block env k' r = Inr (Some b) \<and> HasBlock k' r"
  using assms
  by (auto simp: SaveBlock_def Block_def HasBlock_def decodeBlock_def Let_def bkt_get_put
                 blocksBucket_updateValueForIndicesMap)

text \<open>A start slot without an end slot does not change what \<open>Blocks\<close> returns.\<close>

lemma Blocks_start_slot_without_end_slot:
  "fEndSlot f = None \<Longrightarrow> Blocks env k (Some (SetStartSlot sl f)) = Blocks env k (Some f)"
  by (simp add: Blocks_def SetStartSlot_def createBlockIndicesFromFilters_def
           split: option.splits)

text \<open>
  Claim C4. \<open>get_block(root)\<close> of a root that is not in the block store is claimed to be
  the absent value, never a default-valued block. \<open>Block\<close> returns the block it
  allocated before the lookup: on the empty store \<open>HasBlock\<close> is false for the root
  and \<open>Block\<close> returns the empty block, without an error.
\<close>

theorem Block_absent_root_gives_empty_block:
  "HasBlock emptyKV (replicate 32 1) = False
   \<and> Block exEnv emptyKV (replicate 32 1) = Inr (Some emptyBlock)"
  by code_simp

text \<open>
  Claim C10. After \<open>SaveBlock b\<close> and \<open>SaveHeadBlockRoot (signing_root b)\<close>, \<open>HeadBlock\<close> is
  claimed to return \<open>b\<close>. The write goes to the blocks bucket and the read to the
  validators bucket: for the block at slot 1 (root \<open>replicate 32 2\<close>) \<open>HeadBlock\<close>
  returns the empty block, although \<open>Block\<close> finds the block under that root.
\<close>

theorem HeadBlock_after_SaveHeadBlockRoot:
  "HeadBlock exEnv
     (SaveHeadBlockRoot exEnv (saveAll exEnv emptyKV [blockAt 1 (replicate 32 0)]) (replicate 32 2))
     = Inr (Some emptyBlock)
   \<and> Block exEnv (saveAll exEnv emptyKV [blockAt 1 (replicate 32 0)]) (replicate 32 2)
     = Inr (Some (blockAt 1 (replicate 32 0)))"
  by code_simp

text \<open>
  Claim C5. \<open>query_blocks\<close> is claimed to return the intersection of the candidate sets
  of all the criteria of a filter, ignoring none. With two blocks of the same parent at
  slots 1 and 2: the parent root alone selects both, the range of slots 1 to 2 alone
  selects both, and the two criteria together select nothing (the roots of each slot
  are intersected with each other); a start slot of 2 next to the parent root is
  ignored, the block at slot 1 is returned as well.
\<close>

theorem Blocks_parent_root_with_slots:
  "Blocks exEnv (saveAll exEnv emptyKV [blockAt 1 (replicate 32 0), blockAt 2 (replicate 32 0)])
     (Some (SetParentRoot (replicate 32 0) NewFilter))
       = Inr [blockAt 1 (replicate 32 0), blockAt 2 (replicate 32 0)]
   \<and> Blocks exEnv (saveAll exEnv emptyKV [blockAt 1 (replicate 32 0), blockAt 2 (replicate 32 0)])
     (Some (SetEndSlot 2 (SetStartSlot 1 NewFilter)))
       = Inr [blockAt 1 (replicate 32 0), blockAt 2 (replicate 32 0)]
   \<and> Blocks exEnv (saveAll exEnv emptyKV [blockAt 1 (replicate 32 0), blockAt 2 (replicate 32 0)])
     (Some (SetEndSlot 2 (SetStartSlot 1 (SetParentRoot (replicate 32 0) NewFilter))))
       = Inr []
   \<and> Blocks exEnv (saveAll exEnv emptyKV [blockAt 1 (replicate 32 0), blockAt 2 (replicate 32 0)])
     (Some (SetStartSlot 2 (SetParentRoot (replicate 32 0) NewFilter)))
       = Inr [blockAt 1 (replicate 32 0), blockAt 2 (replicate 32 0)]"
  by code_simp

section \<open>The fork-choice store: results\<close>

text \<open>
  Claim C2. At every iteration of \<open>head()\<close> the children considered are claimed to be the
  stored blocks on the current head whose slot is greater than the justified slot.
  The filter of \<open>Head\<close> has a start slot and no end slot, and \<open>Blocks\<close> reads the slot
  index only when both are set: with the justified checkpoint at epoch 1 (justified
  slot 8) on the block of root \<open>replicate 32 7\<close>, its child at slot 7 (root
  \<open>replicate 32 8\<close>) is among the children, and it is the head returned.
\<close>

theorem Head_takes_child_not_after_justified_slot:
  "headChildren exEnv exForkStore (Root (justifiedCheckpt exForkStore)) = Inr [replicate 32 8]
   \<and> Block exEnv (db exForkStore) (replicate 32 8) = Inr (Some (blockAt 7 (replicate 32 7)))
   \<and> Epoch (justifiedCheckpt exForkStore) * SlotsPerEpoch exEnv = 8
   \<and> Head exEnv exForkStore = Some (Inr (replicate 32 8))"
  by code_simp

text \<open>
  A root that \<open>ancestor\<close> returns is looked up by \<open>Block\<close> as a block of the slot asked
  for; so \<open>ancestor\<close> returns the root it was given exactly when that root's block has the
  slot.
\<close>

lemma ancestor_found_slot_aux:
  assumes "ancestor env k root slot = Some y"
  shows "\<forall>r. y = Inr (Some r) \<longrightarrow>
           (\<exists>b. Block env k (ToBytes32 r) = Inr (Some b) \<and> Slot b = slot)"
proof (rule ancestor.raw_induct
    [where P = "\<lambda>env k root slot y. \<forall>r. y = Inr (Some r) \<longrightarrow>
           (\<exists>b. Block env k (ToBytes32 r) = Inr (Some b) \<and> Slot b = slot)", OF _ assms])
  fix anc env k root slot y
  assume IH: "\<And>env k root slot y. anc env k root slot = Some y \<Longrightarrow>
           \<forall>r. y = Inr (Some r) \<longrightarrow>
             (\<exists>b. Block env k (ToBytes32 r) = Inr (Some b) \<and> Slot b = slot)"
    and eq: "(case Block env k (ToBytes32 root) of
                Inl err \<Rightarrow> Some (Inl (Wrapped ''could not get ancestor block'' err))
              | Inr None \<Rightarrow> Some (Inr None)
              | Inr (Some b) \<Rightarrow>
                  if Slot b < slot then Some (Inr None)
                  else if Slot b = slot then Some (Inr (Some root))
                  else anc env k (ParentRoot b) slot) = Some y"
  show "\<forall>r. y = Inr (Some r) \<longrightarrow>
           (\<exists>b. Block env k (ToBytes32 r) = Inr (Some b) \<and> Slot b = slot)"
  proof (cases "Block env k (ToBytes32 root)")
    case (Inl e)
    with eq show ?thesis by auto
  next
    case (Inr ob)
    show ?thesis
    proof (cases ob)
      case None
      with Inr eq show ?thesis by auto
    next
      case (Some b)
      consider "Slot b < slot" | "Slot b = slot" | "slot < Slot b"
        using linorder_cases by blast
      then show ?thesis
      proof cases
        case 1
        with Inr Some eq show ?thesis by auto
      next
        case 2
        with Inr Some eq show ?thesis by auto
      next
        case 3
        then have "Slot b \<noteq> slot" and "\<not> Slot b < slot" by auto
        with Inr Some eq have "anc env k (ParentRoot b) slot = Some y"
          by simp
        from IH [OF this] show ?thesis .
      qed
    qed
  qed
qed

lemma ancestor_found_slot:
  "ancestor env k root slot = Some (Inr (Some r)) \<Longrightarrow>
     \<exists>b. Block env k (ToBytes32 r) = Inr (Some b) \<and> Slot b = slot"
  using ancestor_found_slot_aux by blast

lemma ancestor_self_iff:
  assumes "Block env k (ToBytes32 r) = Inr (Some b)"
  shows "ancestor env k r s = Some (Inr (Some r)) \<longleftrightarrow> Slot b = s"
proof
  assume "ancestor env k r s = Some (Inr (Some r))"
  from ancestor_found_slot [OF this] assms show "Slot b = s" by simp
next
  assume "Slot b = s"
  with assms show "ancestor env k r s = Some (Inr (Some r))"
    by (subst ancestor.simps) simp
qed

text \<open>
  Claim C8. \<open>ancestor(r, s)\<close> is claimed to be \<open>None\<close> exactly when no ancestor of \<open>r\<close> at
  slot \<open>s\<close> exists, in particular when the walk reaches a missing block. \<open>Block\<close>
  gives the empty block, of slot 0, for a missing root, so the nil test of \<open>ancestor\<close>
  never holds: from the stored block at slot 5 (root \<open>replicate 32 6\<close>) whose parent
  \<open>replicate 32 9\<close> is not stored, the ancestor at slot 0 is that missing parent root.
\<close>

theorem ancestor_returns_missing_root_at_slot_0:
  "HasBlock (saveAll exEnv emptyKV [blockAt 5 (replicate 32 9)]) (replicate 32 6) = True
   \<and> HasBlock (saveAll exEnv emptyKV [blockAt 5 (replicate 32 9)]) (replicate 32 9) = False
   \<and> ancestor exEnv (saveAll exEnv emptyKV [blockAt 5 (replicate 32 9)]) (replicate 32 6) 0
       = Some (Inr (Some (replicate 32 9)))"
  by code_simp

text \<open>
  Claim C1. When the post-state's finalized epoch is greater than the store's, the
  store's finalized checkpoint is claimed to become the post-state's, epoch and root.
  \<open>OnBlock\<close> assigns the epoch only. Processing the block at slot 16 of the chain, with
  a post-state that has justified and finalized \<open>(1, replicate 32 9)\<close>: the call
  succeeds, the justified checkpoint is the post-state's, the finalized checkpoint has
  epoch 1 and still the genesis root \<open>replicate 32 1\<close>.
\<close>

theorem OnBlock_keeps_finalized_root:
  "checkpointsAfter (OnBlock exEnv exTransition 2000 exChainStore exBlockB)
     = Some (None, \<lparr>Epoch = 1, Root = replicate 32 9\<rparr>, \<lparr>Epoch = 1, Root = replicate 32 1\<rparr>)"
  by code_simp

subsection \<open>The checks of \<open>OnBlock\<close>\<close>

lemma OnBlock_MissingPreState:
  "State env (db s) (ToBytes32 (ParentRoot b)) = Inr None \<Longrightarrow>
     OnBlock env tr now s b = Some (Some MissingPreState, s)"
  by (simp add: OnBlock_def verifyBlkPreState_def)

lemma OnBlock_FutureSlot:
  "State env (db s) (ToBytes32 (ParentRoot b)) = Inr (Some pre) \<Longrightarrow>
   GenesisTime pre + Slot b * SecondsPerSlot env > now \<Longrightarrow>
     OnBlock env tr now s b = Some (Some FutureSlot, s)"
  by (simp add: OnBlock_def verifyBlkPreState_def verifyBlkSlotTime_def)

lemma OnBlock_NotDescendant:
  "State env (db s) (ToBytes32 (ParentRoot b)) = Inr (Some pre) \<Longrightarrow>
   GenesisTime pre + Slot b * SecondsPerSlot env \<le> now \<Longrightarrow>
   SigningRoot env b = Some root \<Longrightarrow>
   Block env (db s) (ToBytes32 (Root (finalizedCheckpt s))) = Inr (Some fb) \<Longrightarrow>
   ancestor env (db s) root (Slot fb) = Some (Inr r) \<Longrightarrow>
   sliceOf r \<noteq> Root (finalizedCheckpt s) \<Longrightarrow>
     OnBlock env tr now s b = Some (Some NotDescendantOfFinalized, s)"
  by (simp add: OnBlock_def verifyBlkPreState_def verifyBlkSlotTime_def verifyBlkDescendant_def
        leD)

lemma OnBlock_BeforeFinalized:
  "State env (db s) (ToBytes32 (ParentRoot b)) = Inr (Some pre) \<Longrightarrow>
   GenesisTime pre + Slot b * SecondsPerSlot env \<le> now \<Longrightarrow>
   SigningRoot env b = Some root \<Longrightarrow>
   verifyBlkDescendant env s root = Some None \<Longrightarrow>
   Slot b \<le> Epoch (finalizedCheckpt s) * SlotsPerEpoch env \<Longrightarrow>
     OnBlock env tr now s b = Some (Some BeforeFinalized, s)"
  by (simp add: OnBlock_def verifyBlkPreState_def verifyBlkSlotTime_def verifyBlkFinalizedSlot_def
        StartSlot_def leD)

lemma OnBlock_StateTransitionFailed:
  "State env (db s) (ToBytes32 (ParentRoot b)) = Inr (Some pre) \<Longrightarrow>
   GenesisTime pre + Slot b * SecondsPerSlot env \<le> now \<Longrightarrow>
   SigningRoot env b = Some root \<Longrightarrow>
   verifyBlkDescendant env s root = Some None \<Longrightarrow>
   Epoch (finalizedCheckpt s) * SlotsPerEpoch env < Slot b \<Longrightarrow>
   tr pre b = None \<Longrightarrow>
     OnBlock env tr now s b
       = Some (Some (Wrapped ''could not execute state transition'' StateTransitionFailed), s)"
  by (simp add: OnBlock_def verifyBlkPreState_def verifyBlkSlotTime_def verifyBlkFinalizedSlot_def
        StartSlot_def leD)

text \<open>When all the checks pass and the state transition succeeds, a failing write of the
  state ends the call after the block has been written.\<close>

lemma OnBlock_SaveState_fails:
  "State env (db s) (ToBytes32 (ParentRoot b)) = Inr (Some pre) \<Longrightarrow>
   GenesisTime pre + Slot b * SecondsPerSlot env \<le> now \<Longrightarrow>
   SigningRoot env b = Some root \<Longrightarrow>
   verifyBlkDescendant env s root = Some None \<Longrightarrow>
   Epoch (finalizedCheckpt s) * SlotsPerEpoch env < Slot b \<Longrightarrow>
   tr pre b = Some post \<Longrightarrow>
   SaveBlock env (db s) b = Inr k1 \<Longrightarrow>
   SaveStateError env post root = Some e \<Longrightarrow>
     OnBlock env tr now s b = Some (Some (Wrapped ''could not save state'' e), s\<lparr>db := k1\<rparr>)"
  by (simp add: OnBlock_def verifyBlkPreState_def verifyBlkSlotTime_def verifyBlkFinalizedSlot_def
        StartSlot_def SaveState_def leD)

text \<open>
  Claim C9. \<open>OnBlock\<close> checks, in this order, the pre-state, the slot time, the descent
  from the finalized block, the slot against the finalized epoch, and then runs the
  state transition. The first check that fails ends the call with its error, and the
  store returned is the store given: no block and no state has been written, and
  both checkpoints are as before. Each line below assumes that the checks before it
  have passed.
\<close>

theorem OnBlock_checks_in_order:
  "(State env (db s) (ToBytes32 (ParentRoot b)) = Inr None \<longrightarrow>
      OnBlock env tr now s b = Some (Some MissingPreState, s))
   \<and> (State env (db s) (ToBytes32 (ParentRoot b)) = Inr (Some pre)
        \<and> GenesisTime pre + Slot b * SecondsPerSlot env > now \<longrightarrow>
      OnBlock env tr now s b = Some (Some FutureSlot, s))
   \<and> (State env (db s) (ToBytes32 (ParentRoot b)) = Inr (Some pre)
        \<and> GenesisTime pre + Slot b * SecondsPerSlot env \<le> now
        \<and> SigningRoot env b = Some root
        \<and> Block env (db s) (ToBytes32 (Root (finalizedCheckpt s))) = Inr (Some fb)
        \<and> ancestor env (db s) root (Slot fb) = Some (Inr r)
        \<and> sliceOf r \<noteq> Root (finalizedCheckpt s) \<longrightarrow>
      OnBlock env tr now s b = Some (Some NotDescendantOfFinalized, s))
   \<and> (State env (db s) (ToBytes32 (ParentRoot b)) = Inr (Some pre)
        \<and> GenesisTime pre + Slot b * SecondsPerSlot env \<le> now
        \<and> SigningRoot env b = Some root
        \<and> verifyBlkDescendant env s root = Some None
        \<and> Slot b \<le> Epoch (finalizedCheckpt s) * SlotsPerEpoch env \<longrightarrow>
      OnBlock env tr now s b = Some (Some BeforeFinalized, s))
   \<and> (State env (db s) (ToBytes32 (ParentRoot b)) = Inr (Some pre)
        \<and> GenesisTime pre + Slot b * SecondsPerSlot env \<le> now
        \<and> SigningRoot env b = Some root
        \<and> verifyBlkDescendant env s root = Some None
        \<and> Epoch (finalizedCheckpt s) * SlotsPerEpoch env < Slot b
        \<and> tr pre b = None \<longrightarrow>
      OnBlock env tr now s b
        = Some (Some (Wrapped ''could not execute state transition'' StateTransitionFailed), s))"
  using OnBlock_MissingPreState [where env = env and s = s and b = b and tr = tr and now = now]
        OnBlock_FutureSlot [where env = env and s = s and b = b and tr = tr and now = now
          and pre = pre]
        OnBlock_NotDescendant [where env = env and s = s and b = b and tr = tr and now = now
          and pre = pre and root = root and fb = fb and r = r]
        OnBlock_BeforeFinalized [where env = env and s = s and b = b and tr = tr and now = now
          and pre = pre and root = root]
        OnBlock_StateTransitionFailed [where env = env and s = s and b = b and tr = tr
          and now = now and pre = pre and root = root]
  by blast

text \<open>
  The five failures on the chain of three blocks: a block on a parent without a state;
  the block at slot 16 one second before its slot time (1096); a block that is not in
  the store, whose ancestor at slot 0 is therefore its own root; the block at slot 16
  when the finalized epoch is 2 (start slot 16); and a state transition that fails.
\<close>

theorem OnBlock_checks_in_order_witness:
  "OnBlock exEnv exTransition 2000 exChainStore (blockAt 17 (replicate 32 17))
     = Some (Some MissingPreState, exChainStore)
   \<and> OnBlock exEnv exTransition 1095 exChainStore exBlockB
     = Some (Some FutureSlot, exChainStore)
   \<and> OnBlock exEnv exTransition 2000 exChainStore (blockAt 3 (replicate 32 1))
     = Some (Some NotDescendantOfFinalized, exChainStore)
   \<and> OnBlock exEnv exTransition 2000
        (exChainStore\<lparr>finalizedCheckpt := \<lparr>Epoch = 2, Root = replicate 32 1\<rparr>\<rparr>) exBlockB
     = Some (Some BeforeFinalized, exChainStore\<lparr>finalizedCheckpt := \<lparr>Epoch = 2, Root = replicate 32 1\<rparr>\<rparr>)
   \<and> OnBlock exEnv (\<lambda>pre b. None) 2000 exChainStore exBlockB
     = Some (Some (Wrapped ''could not execute state transition'' StateTransitionFailed), exChainStore)"
proof -
  let ?s4 = "exChainStore\<lparr>finalizedCheckpt := \<lparr>Epoch = 2, Root = replicate 32 1\<rparr>\<rparr>"
  have pre: "State exEnv (db exChainStore) (ToBytes32 (ParentRoot exBlockB)) = Inr (Some exState)"
    by code_simp
  have pre4: "State exEnv (db ?s4) (ToBytes32 (ParentRoot exBlockB)) = Inr (Some exState)"
    by code_simp
  have time: "GenesisTime exState + Slot exBlockB * SecondsPerSlot exEnv \<le> 2000"
    by code_simp
  have root: "SigningRoot exEnv exBlockB = Some (replicate 32 17)"
    by code_simp
  have desc: "verifyBlkDescendant exEnv exChainStore (replicate 32 17) = Some None"
    by code_simp
  have c1: "OnBlock exEnv exTransition 2000 exChainStore (blockAt 17 (replicate 32 17))
              = Some (Some MissingPreState, exChainStore)"
  proof -
    have "State exEnv (db exChainStore) (ToBytes32 (ParentRoot (blockAt 17 (replicate 32 17))))
            = Inr None"
      by code_simp
    with OnBlock_checks_in_order [where s = exChainStore and b = "blockAt 17 (replicate 32 17)"
           and env = exEnv and tr = exTransition and now = 2000]
    show ?thesis by blast
  qed
  have c2: "OnBlock exEnv exTransition 1095 exChainStore exBlockB
              = Some (Some FutureSlot, exChainStore)"
  proof -
    have "GenesisTime exState + Slot exBlockB * SecondsPerSlot exEnv > 1095"
      by code_simp
    with pre OnBlock_checks_in_order [where s = exChainStore and b = exBlockB
           and env = exEnv and tr = exTransition and now = 1095 and pre = exState]
    show ?thesis by blast
  qed
  have c3: "OnBlock exEnv exTransition 2000 exChainStore (blockAt 3 (replicate 32 1))
              = Some (Some NotDescendantOfFinalized, exChainStore)"
  proof -
    have h1: "State exEnv (db exChainStore) (ToBytes32 (ParentRoot (blockAt 3 (replicate 32 1))))
                = Inr (Some exState)"
      by code_simp
    have h2: "GenesisTime exState + Slot (blockAt 3 (replicate 32 1)) * SecondsPerSlot exEnv \<le> 2000"
      by code_simp
    have h3: "SigningRoot exEnv (blockAt 3 (replicate 32 1)) = Some (replicate 32 4)"
      by code_simp
    have h4: "Block exEnv (db exChainStore) (ToBytes32 (Root (finalizedCheckpt exChainStore)))
                = Inr (Some exGenesis)"
      by code_simp
    have h5: "ancestor exEnv (db exChainStore) (replicate 32 4) (Slot exGenesis)
                = Some (Inr (Some (replicate 32 4)))"
      by code_simp
    have h6: "sliceOf (Some (replicate 32 4)) \<noteq> Root (finalizedCheckpt exChainStore)"
      by code_simp
    from h1 h2 h3 h4 h5 h6
      OnBlock_checks_in_order [where s = exChainStore and b = "blockAt 3 (replicate 32 1)"
           and env = exEnv and tr = exTransition and now = 2000 and pre = exState
           and root = "replicate 32 4" and fb = exGenesis and r = "Some (replicate 32 4)"]
    show ?thesis by blast
  qed
  have c4: "OnBlock exEnv exTransition 2000 ?s4 exBlockB = Some (Some BeforeFinalized, ?s4)"
  proof -
    have h1: "verifyBlkDescendant exEnv ?s4 (replicate 32 17) = Some None"
      by code_simp
    have h2: "Slot exBlockB \<le> Epoch (finalizedCheckpt ?s4) * SlotsPerEpoch exEnv"
      by code_simp
    from pre4 time root h1 h2
      OnBlock_checks_in_order [where s = ?s4 and b = exBlockB
           and env = exEnv and tr = exTransition and now = 2000 and pre = exState
           and root = "replicate 32 17"]
    show ?thesis by blast
  qed
  have c5: "OnBlock exEnv (\<lambda>pre b. None) 2000 exChainStore exBlockB
     = Some (Some (Wrapped ''could not execute state transition'' StateTransitionFailed), exChainStore)"
  proof -
    have h1: "Epoch (finalizedCheckpt exChainStore) * SlotsPerEpoch exEnv < Slot exBlockB"
      by code_simp
    from pre time root desc h1
      OnBlock_checks_in_order [where s = exChainStore and b = exBlockB
           and env = exEnv and tr = "\<lambda>pre b. None" and now = 2000 and pre = exState
           and root = "replicate 32 17"]
    show ?thesis by blast
  qed
  from c1 c2 c3 c4 c5 show ?thesis by blast
qed

text \<open>
  Without a state under the justified checkpoint's block root, \<open>latestAttestingBalance\<close>
  returns 0 and no error, whatever the root.
\<close>

lemma latestAttestingBalance_no_justified_state:
  "HashProto env (justifiedCheckpt s) = Some h \<Longrightarrow>
   State env (db s) (checkptBlkRootAt s h) = Inr None \<Longrightarrow>
     latestAttestingBalance env s root = Some (Inr 0)"
  by (simp add: latestAttestingBalance_def Wrap_def)

text \<open>
  Claim C3. \<open>latest_attesting_balance(root)\<close> is claimed to be 0 whenever the target block
  is absent or the justified state is absent. In the store after \<open>GenesisStore\<close> the one
  active validator's latest vote is for the root \<open>replicate 32 7\<close>, whose block is not
  stored. For that root as target: \<open>Block\<close> gives the empty block of slot 0, \<open>ancestor\<close>
  of the vote's root at slot 0 returns that root although no block is stored under it,
  and the balance returned is the validator's 32, not 0.
\<close>

theorem latestAttestingBalance_counts_vote_for_missing_root:
  "HasBlock (db exVoteStore) (ToBytes32 (replicate 32 7)) = False
   \<and> ancestor exEnv (db exVoteStore) (replicate 32 7) 0 = Some (Inr (Some (replicate 32 7)))
   \<and> latestAttestingBalance exEnv exVoteStore (replicate 32 7) = Some (Inr 32)"
  by code_simp

section \<open>Gossip validation: results\<close>

lemma validate_first_true:
  assumes "validateProposerSlashing env hs1 ok1 (ProposerSlashingMsg M) st0 = (True, st1)"
  shows "\<exists>key. HashSlashing env M = Some key \<and> seenProposerSlashings st1 key \<noteq> None
           \<and> broadcasts (newEvents st0 st1) = [M]"
  using assms
  by (auto simp: validateProposerSlashing_def propSlashingCacheKey_def Let_def newEvents_def
           split: option.splits if_splits)

lemma validate_seen_drops:
  assumes "HashSlashing env M = Some key" and "seenProposerSlashings st key \<noteq> None"
  shows "validateProposerSlashing env hs ok (ProposerSlashingMsg M) st = (False, st)"
  using assms
  by (simp add: validateProposerSlashing_def propSlashingCacheKey_def Let_def)

text \<open>
  Claim C6. Two calls of \<open>validateProposerSlashing\<close> on the same slashing, the second on
  the state the first left (nothing evicted), whatever the head state and the
  broadcaster do at each call: the two verdicts are not both true; if the first is
  true, that call broadcast the slashing, and the second call returns false and
  leaves the state as it is: no broadcast, no run of the predicate.
\<close>

theorem validateProposerSlashing_twice:
  assumes "validateProposerSlashing env hs1 ok1 (ProposerSlashingMsg M) st0 = (r1, st1)"
      and "validateProposerSlashing env hs2 ok2 (ProposerSlashingMsg M) st1 = (r2, st2)"
  shows "\<not> (r1 \<and> r2)
         \<and> (r1 \<longrightarrow> broadcasts (newEvents st0 st1) = [M]
                    \<and> r2 = False
                    \<and> broadcasts (newEvents st1 st2) = []
                    \<and> predicateRuns (newEvents st1 st2) = []
                    \<and> st2 = st1)"
proof (cases r1)
  case False
  then show ?thesis by simp
next
  case True
  with assms(1) have "validateProposerSlashing env hs1 ok1 (ProposerSlashingMsg M) st0 = (True, st1)"
    by simp
  from validate_first_true [OF this] obtain key where k: "HashSlashing env M = Some key"
      "seenProposerSlashings st1 key \<noteq> None" "broadcasts (newEvents st0 st1) = [M]"
    by blast
  from validate_seen_drops [OF k(1) k(2), of hs2 ok2] assms(2)
  have "r2 = False" "st2 = st1" by simp_all
  with True k(3) show ?thesis by (simp add: newEvents_def)
qed

text \<open>A valid slashing, in a process that has seen nothing, validated twice.\<close>

theorem validateProposerSlashing_twice_witness:
  "fst (validateProposerSlashing exSyncEnv (Some exState) True (ProposerSlashingMsg exSlashing) exSyncState) = True
   \<and> broadcasts (newEvents exSyncState
        (snd (validateProposerSlashing exSyncEnv (Some exState) True (ProposerSlashingMsg exSlashing) exSyncState)))
       = [exSlashing]
   \<and> validateProposerSlashing exSyncEnv (Some exState) True (ProposerSlashingMsg exSlashing)
        (snd (validateProposerSlashing exSyncEnv (Some exState) True (ProposerSlashingMsg exSlashing) exSyncState))
       = (False, snd (validateProposerSlashing exSyncEnv (Some exState) True (ProposerSlashingMsg exSlashing) exSyncState))"
proof -
  let ?v1 = "validateProposerSlashing exSyncEnv (Some exState) True (ProposerSlashingMsg exSlashing) exSyncState"
  let ?v2 = "validateProposerSlashing exSyncEnv (Some exState) True (ProposerSlashingMsg exSlashing) (snd ?v1)"
  have r1: "fst ?v1 = True" by code_simp
  have h1: "?v1 = (fst ?v1, snd ?v1)" by simp
  have h2: "?v2 = (fst ?v2, snd ?v2)" by simp
  from validateProposerSlashing_twice [OF h1 h2] r1
  have "broadcasts (newEvents exSyncState (snd ?v1)) = [exSlashing]" "fst ?v2 = False" "snd ?v2 = snd ?v1"
    by simp_all
  with r1 show ?thesis by (simp add: prod_eq_iff)
qed

text \<open>
  Claim C7. After a valid slashing whose broadcast fails, the same message received
  again is claimed to pass the seen-cache so that the broadcast is retried. The valid
  key is set before the broadcast: the first call returns true, the second returns
  false and broadcasts nothing.
\<close>

theorem validateProposerSlashing_failed_broadcast_counterexample:
  "fst (validateProposerSlashing exSyncEnv (Some exState) False (ProposerSlashingMsg exSlashing) exSyncState) = True
   \<and> fst (validateProposerSlashing exSyncEnv (Some exState) True (ProposerSlashingMsg exSlashing)
        (snd (validateProposerSlashing exSyncEnv (Some exState) False (ProposerSlashingMsg exSlashing) exSyncState)))
       = False
   \<and> broadcasts (newEvents
        (snd (validateProposerSlashing exSyncEnv (Some exState) False (ProposerSlashingMsg exSlashing) exSyncState))
        (snd (validateProposerSlashing exSyncEnv (Some exState) True (ProposerSlashingMsg exSlashing)
           (snd (validateProposerSlashing exSyncEnv (Some exState) False (ProposerSlashingMsg exSlashing) exSyncState)))))
       = []"
  by code_simp

text \<open>
  Claim C7, as amended. For a valid slashing that has not been seen and whose
  broadcast fails, the verdict is true and the seen-cache is the one a successful
  broadcast leaves (the valid key is recorded); when the same message is received
  again it is dropped by the seen-cache: the verdict is false, the state is unchanged
  and nothing is broadcast.
\<close>

theorem validateProposerSlashing_failed_broadcast:
  assumes "HashSlashing env M = Some key"
      and "seenProposerSlashings st (invalid env @ key) = None"
      and "seenProposerSlashings st key = None"
      and "VerifyProposerSlashing env state M"
      and "validateProposerSlashing env (Some state) False (ProposerSlashingMsg M) st = (r1, st1)"
      and "validateProposerSlashing env hs2 ok2 (ProposerSlashingMsg M) st1 = (r2, st2)"
  shows "r1 = True
         \<and> seenProposerSlashings st1 = (seenProposerSlashings st)(key \<mapsto> True)
         \<and> seenProposerSlashings st1
             = seenProposerSlashings
                 (snd (validateProposerSlashing env (Some state) True (ProposerSlashingMsg M) st))
         \<and> r2 = False \<and> st2 = st1 \<and> broadcasts (newEvents st1 st2) = []"
proof -
  from assms(1-5) have a: "r1 = True" "seenProposerSlashings st1 = (seenProposerSlashings st)(key \<mapsto> True)"
    by (auto simp: validateProposerSlashing_def propSlashingCacheKey_def Let_def)
  from assms(1-4) have b: "seenProposerSlashings
                 (snd (validateProposerSlashing env (Some state) True (ProposerSlashingMsg M) st))
                = (seenProposerSlashings st)(key \<mapsto> True)"
    by (simp add: validateProposerSlashing_def propSlashingCacheKey_def Let_def)
  from a(2) have "seenProposerSlashings st1 key \<noteq> None" by simp
  from validate_seen_drops [OF assms(1) this, of hs2 ok2] assms(6)
  have c: "r2 = False" "st2 = st1" by simp_all
  from a b c show ?thesis by (simp add: newEvents_def)
qed

text \<open>The valid slashing with a failing broadcast, then received again.\<close>

theorem validateProposerSlashing_failed_broadcast_witness:
  "HashSlashing exSyncEnv exSlashing = Some (replicate 32 0)
   \<and> seenProposerSlashings exSyncState (invalid exSyncEnv @ replicate 32 0) = None
   \<and> seenProposerSlashings exSyncState (replicate 32 0) = None
   \<and> VerifyProposerSlashing exSyncEnv exState exSlashing
   \<and> validateProposerSlashing exSyncEnv (Some exState) True (ProposerSlashingMsg exSlashing)
        (snd (validateProposerSlashing exSyncEnv (Some exState) False (ProposerSlashingMsg exSlashing) exSyncState))
       = (False, snd (validateProposerSlashing exSyncEnv (Some exState) False (ProposerSlashingMsg exSlashing) exSyncState))"
proof -
  let ?v1 = "validateProposerSlashing exSyncEnv (Some exState) False (ProposerSlashingMsg exSlashing) exSyncState"
  let ?v2 = "validateProposerSlashing exSyncEnv (Some exState) True (ProposerSlashingMsg exSlashing) (snd ?v1)"
  have h1: "HashSlashing exSyncEnv exSlashing = Some (replicate 32 0)" by code_simp
  have h2: "seenProposerSlashings exSyncState (invalid exSyncEnv @ replicate 32 0) = None" by code_simp
  have h3: "seenProposerSlashings exSyncState (replicate 32 0) = None" by code_simp
  have h4: "VerifyProposerSlashing exSyncEnv exState exSlashing" by code_simp
  have h5: "?v1 = (fst ?v1, snd ?v1)" by simp
  have h6: "?v2 = (fst ?v2, snd ?v2)" by simp
  from validateProposerSlashing_failed_broadcast [OF h1 h2 h3 h4 h5 h6]
  have "fst ?v2 = False" "snd ?v2 = snd ?v1" by simp_all
  with h1 h2 h3 h4 show ?thesis by (simp add: prod_eq_iff)
qed

end
